theory Spec2Isabelle
  imports Complex_Main
begin

section \<open>The interaction and camera state machine of \<^verbatim>\<open>src/main.js\<close>\<close>

text \<open>
  The program is one JavaScript module: module-level variables, three event handlers
  (\<^verbatim>\<open>onClick\<close>, \<^verbatim>\<open>onMouseMove\<close>, the close button's \<^verbatim>\<open>resetView\<close>) and four
  functions driven by \<^verbatim>\<open>requestAnimationFrame\<close> (\<^verbatim>\<open>initialCameraAnimation\<close>,
  \<^verbatim>\<open>animateCamera\<close>, \<^verbatim>\<open>animateReset\<close>, \<^verbatim>\<open>animate\<close>). The module-level variables
  become one record, each function becomes a function on that record, and what a function
  reads from the browser or from the rendering library (the clock, the result of a ray
  cast, the size of a bounding box) is an argument.

  JavaScript numbers are modelled as real numbers: rounding of doubles is not modelled.
\<close>

subsection \<open>Vectors (\<^verbatim>\<open>THREE.Vector3\<close>)\<close>

datatype vec3 = Vector3 (vx: real) (vy: real) (vz: real)

definition add :: "vec3 \<Rightarrow> vec3 \<Rightarrow> vec3" where
  "add a b = Vector3 (vx a + vx b) (vy a + vy b) (vz a + vz b)"

text \<open>\<^verbatim>\<open>lerpVectors(v1, v2, alpha)\<close> sets each component to \<^verbatim>\<open>v1 + (v2 - v1) * alpha\<close>.\<close>

definition lerpVectors :: "vec3 \<Rightarrow> vec3 \<Rightarrow> real \<Rightarrow> vec3" where
  "lerpVectors v1 v2 alpha =
     Vector3 (vx v1 + (vx v2 - vx v1) * alpha)
             (vy v1 + (vy v2 - vy v1) * alpha)
             (vz v1 + (vz v2 - vz v1) * alpha)"


subsection \<open>Scene objects\<close>

text \<open>
  A label is the sprite built by \<^verbatim>\<open>createLabel\<close>: its \<^verbatim>\<open>name\<close>, and its material with the
  chain \<^verbatim>\<open>material.map.image.title\<close> that \<^verbatim>\<open>showContent\<close> walks. A sprite always has a
  material; the material's texture, the texture's image and the image's title may be
  missing. The material is identified by \<open>material_id\<close>; its mutable \<^verbatim>\<open>opacity\<close> is
  kept in the state under that identifier, so that two labels sharing one material
  share its opacity.
\<close>

record image =
  title :: "string option"

record texture =
  image :: "image option"

record spriteMaterial =
  material_id :: nat
  texture_map :: "texture option"

record sprite =
  name :: string
  material :: spriteMaterial

text \<open>
  The animation parameters that \<^verbatim>\<open>createPaper\<close> stores in \<^verbatim>\<open>userData\<close>. Only those of
  the objects in \<^verbatim>\<open>papers\<close> are ever read.
\<close>

record floatParams =
  initialPosition :: vec3
  floatSpeed :: real
  rotationSpeed :: real
  floatOffset :: real
  floatRadius :: real

text \<open>
  A scene-graph node: its identity, \<^verbatim>\<open>userData.label\<close> (absent on every node except
  the loaded paper models), the animation parameters, and its \<^verbatim>\<open>parent\<close>. The parent
  chain of a node is finite (the scene graph is a tree), which the datatype expresses.
  Two nodes are the same JavaScript object when they are equal here; \<open>uuid\<close> tells
  otherwise equal nodes apart. The mutable \<^verbatim>\<open>position\<close> of a node is kept in the state.
\<close>

datatype object3d =
  Object3D (uuid: nat) (userData_label: "sprite option") (userData_float: floatParams)
           (parent: "object3d option")

subsection \<open>The module-level variables\<close>

datatype display = DisplayNone | DisplayBlock

text \<open>
  The local variables of \<^verbatim>\<open>zoomToModel\<close> that its inner function \<^verbatim>\<open>animateCamera\<close>
  closes over, and those of \<^verbatim>\<open>resetView\<close> that \<^verbatim>\<open>animateReset\<close> closes over.
\<close>

record zoomClosure =
  zc_model :: object3d
  zc_modelPosition :: vec3
  zc_zoomDistance :: real
  zc_targetPosition :: vec3
  zc_startPosition :: vec3
  zc_startTarget :: vec3
  zc_startTime :: real

record resetClosure =
  rc_startPosition :: vec3
  rc_startTarget :: vec3
  rc_startTime :: real

text \<open>
  \<open>zoomTween\<close> and \<open>resetTween\<close> hold the closure while a call of \<^verbatim>\<open>animateCamera\<close>
  (of \<^verbatim>\<open>animateReset\<close>) is requested for the next animation frame, and \<open>None\<close>
  otherwise. \<open>camera_lookAt\<close> is the argument of the latest \<^verbatim>\<open>camera.lookAt\<close> call of
  this module and \<open>camera_rotation_x\<close> the value that the intro last assigned to
  \<^verbatim>\<open>camera.rotation.x\<close> (0 before that); how the library turns the one into the other
  is not modelled. \<open>hoverSound_plays\<close> counts the calls of \<^verbatim>\<open>hoverSound.play()\<close>,
  \<open>console_errors\<close> collects the label texts passed to \<^verbatim>\<open>console.error\<close>, and
  \<open>overlay_innerHTML\<close> holds the two strings substituted into the template that
  \<^verbatim>\<open>showContent\<close> writes into the overlay. \<open>sectionContent\<close> is the result of the
  property lookup \<^verbatim>\<open>sectionContent[labelText]\<close>; the table is a constant of the module
  and its texts play no role below.
\<close>

record state =
  camera_position :: vec3
  camera_rotation_x :: real
  camera_lookAt :: "vec3 option"
  controls_target :: vec3
  controls_minDistance :: real
  controls_maxDistance :: real
  controls_enabled :: bool
  initialAnimationComplete :: bool
  initialAnimationStartTime :: "real option"
  isZooming :: bool
  selectedModel :: "object3d option"
  zoomTween :: "zoomClosure option"
  resetTween :: "resetClosure option"
  cameraOrbitAngle :: real
  mouse :: "real \<times> real"
  papers :: "object3d list"
  position :: "nat \<Rightarrow> vec3"
  opacity :: "nat \<Rightarrow> real"
  lastHoveredModel :: "object3d option"
  hoverSound_plays :: nat
  sectionContent :: "string \<Rightarrow> string option"
  overlay_innerHTML :: "(string \<times> string) option"
  overlay_display :: display
  console_errors :: "string list"

definition finalCameraPosition :: vec3 where
  "finalCameraPosition = Vector3 0 2 8"

text \<open>The state after the module's top-level code has run, for a given content table.\<close>

definition initial_state :: "(string \<Rightarrow> string option) \<Rightarrow> state" where
  "initial_state tbl =
     \<lparr> camera_position = Vector3 0 100 20,
       camera_rotation_x = 0,
       camera_lookAt = None,
       controls_target = Vector3 0 0 6,
       controls_minDistance = 3,
       controls_maxDistance = 100,
       controls_enabled = False,
       initialAnimationComplete = False,
       initialAnimationStartTime = None,
       isZooming = False,
       selectedModel = None,
       zoomTween = None,
       resetTween = None,
       cameraOrbitAngle = pi / 2,
       mouse = (0, 0),
       papers = [],
       position = (\<lambda>_. Vector3 0 0 0),
       opacity = (\<lambda>_. 0),
       lastHoveredModel = None,
       hoverSound_plays = 0,
       sectionContent = tbl,
       overlay_innerHTML = None,
       overlay_display = DisplayNone,
       console_errors = [] \<rparr>"

subsection \<open>The content table and the labels\<close>

text \<open>
  \<^verbatim>\<open>paperLabels\<close>; a character beyond ASCII is written by its code unit.
\<close>

definition paperLabels :: "string list" where
  "paperLabels =
     [CHR 0xC9 # ''ducation'',
      ''Exp'' @ CHR 0xE9 # ''rience'',
      ''Comp'' @ CHR 0xE9 # ''tences'',
      CHR 0xC0 # '' Propos'',
      ''Mes Projets'']"

definition createLabel :: "string \<Rightarrow> nat \<Rightarrow> sprite" where
  "createLabel text mid =
     \<lparr> name = text,
       material = \<lparr> material_id = mid,
                    texture_map = Some \<lparr> image = Some \<lparr> title = Some text \<rparr> \<rparr> \<rparr> \<rparr>"

text \<open>
  The callback of \<^verbatim>\<open>fbxLoader.load\<close> in \<^verbatim>\<open>createPaper\<close>: the loaded model gets its
  position, its animation parameters and a fresh label with opacity 0, and is pushed
  onto \<^verbatim>\<open>papers\<close>. The model is added to the scene root, which carries no label; the
  walk up the parent chain below never goes past a paper, so the root is left out.
\<close>

definition createPaper_loaded :: "nat \<Rightarrow> floatParams \<Rightarrow> string \<Rightarrow> nat \<Rightarrow> state \<Rightarrow> state" where
  "createPaper_loaded u fp text mid s =
     (let label = createLabel text mid;
          fbx = Object3D u (Some label) fp None
      in s\<lparr> position := (position s)(u := initialPosition fp),
            opacity := (opacity s)(mid := 0),
            papers := papers s @ [fbx] \<rparr>)"

subsection \<open>The intro animation\<close>

text \<open>
  \<^verbatim>\<open>!initialAnimationStartTime\<close> holds for \<^verbatim>\<open>null\<close> and for the number 0.
\<close>

definition initialCameraAnimation :: "real \<Rightarrow> state \<Rightarrow> state" where
  "initialCameraAnimation timestamp s =
     (let start = (case initialAnimationStartTime s of
                     None \<Rightarrow> timestamp
                   | Some t \<Rightarrow> if t = 0 then timestamp else t);
          elapsed = timestamp - start;
          duration = 8000;
          progress = min (elapsed / duration) 1;
          easeProgress = (if progress = 1 then 1 else 1 - 2 powr (- 10 * progress));
          currentY = 100 * (1 - easeProgress) + 2 * easeProgress;
          currentZ = 20 * (1 - easeProgress) + 8 * easeProgress;
          startRotation = - pi / 2;
          endRotation = 0;
          currentRotation = startRotation * (1 - easeProgress) + endRotation * easeProgress;
          s1 = s\<lparr> initialAnimationStartTime := Some start,
                  camera_position := Vector3 0 currentY currentZ,
                  camera_rotation_x := currentRotation \<rparr>
      in if progress < 1 then s1
         else s1\<lparr> initialAnimationComplete := True, controls_enabled := True \<rparr>)"

subsection \<open>The content presenter\<close>

text \<open>
  \<^verbatim>\<open>labelMaterial.map.image.title || model.userData.label.name\<close> is the title unless
  that is missing or empty. \<^verbatim>\<open>!content\<close> holds when the lookup finds nothing and when
  it finds the empty string.
\<close>

definition labelText_of :: "sprite \<Rightarrow> image \<Rightarrow> string" where
  "labelText_of label img =
     (case title img of
        None \<Rightarrow> name label
      | Some t \<Rightarrow> if t = [] then name label else t)"

definition showContent :: "object3d option \<Rightarrow> state \<Rightarrow> state" where
  "showContent model s =
     (case model of None \<Rightarrow> s | Some m \<Rightarrow>
      (case userData_label m of None \<Rightarrow> s | Some label \<Rightarrow>
       (let labelMaterial = material label in
        case texture_map labelMaterial of None \<Rightarrow> s | Some tex \<Rightarrow>
        (case image tex of None \<Rightarrow> s | Some img \<Rightarrow>
         (let labelText = labelText_of label img
          in case sectionContent s labelText of
               None \<Rightarrow> s\<lparr> console_errors := console_errors s @ [labelText] \<rparr>
             | Some content \<Rightarrow>
                 if content = [] then s\<lparr> console_errors := console_errors s @ [labelText] \<rparr>
                 else s\<lparr> overlay_innerHTML := Some (labelText, content),
                         overlay_display := DisplayBlock \<rparr>)))))"

subsection \<open>Focusing on a model\<close>

text \<open>The frame function of the focus-in tween, with \<open>now\<close> the value of \<^verbatim>\<open>Date.now()\<close>.\<close>

definition animateCamera :: "zoomClosure \<Rightarrow> real \<Rightarrow> state \<Rightarrow> state" where
  "animateCamera c now s =
     (let animationDuration = 1200;
          elapsed = now - zc_startTime c;
          progress = min (elapsed / animationDuration) 1;
          easeProgress = (if progress < 0.5
                          then 4 * progress * progress * progress
                          else 1 - (- 2 * progress + 2) ^ 3 / 2);
          s1 = s\<lparr> camera_position :=
                    lerpVectors (zc_startPosition c) (zc_targetPosition c) easeProgress,
                  controls_target :=
                    lerpVectors (zc_startTarget c) (zc_modelPosition c) easeProgress,
                  camera_lookAt := Some (zc_modelPosition c) \<rparr>
      in if progress < 1 then s1\<lparr> zoomTween := Some c \<rparr>
         else showContent (Some (zc_model c))
                (s1\<lparr> zoomTween := None,
                      controls_enabled := True,
                      controls_minDistance := zc_zoomDistance c * 0.5,
                      controls_maxDistance := zc_zoomDistance c * 2 \<rparr>))"

text \<open>
  \<open>modelSize\<close> is the size of the model's bounding box as the library computes it
  at the time of the call, \<open>now\<close> the value of \<^verbatim>\<open>Date.now()\<close>.
\<close>

definition zoomToModel :: "object3d \<Rightarrow> vec3 \<Rightarrow> real \<Rightarrow> state \<Rightarrow> state" where
  "zoomToModel model modelSize now s =
     (let modelPosition = position s (uuid model);
          maxDimension = max (max (vx modelSize) (vy modelSize)) (vz modelSize);
          zoomDistance = maxDimension * 2;
          targetPosition = add modelPosition (Vector3 0 0.2 zoomDistance);
          c = \<lparr> zc_model = model,
                zc_modelPosition = modelPosition,
                zc_zoomDistance = zoomDistance,
                zc_targetPosition = targetPosition,
                zc_startPosition = camera_position s,
                zc_startTarget = controls_target s,
                zc_startTime = now \<rparr>
      in animateCamera c now (s\<lparr> isZooming := True, controls_enabled := False \<rparr>))"

text \<open>
  The loop \<^verbatim>\<open>while (parentModel && !parentModel.userData.label) parentModel = parentModel.parent\<close>:
  the nearest node, from the hit upward, that carries a label.
\<close>

fun labelledAncestor :: "object3d \<Rightarrow> object3d option" where
  "labelledAncestor (Object3D u l f p) =
     (case l of
        Some _ \<Rightarrow> Some (Object3D u l f p)
      | None \<Rightarrow> (case p of None \<Rightarrow> None | Some q \<Rightarrow> labelledAncestor q))"

text \<open>
  A click: the pointer's coordinates and the window's size, \<open>click_intersects\<close> the
  objects of the intersections that the ray cast returns (nearest first),
  \<open>click_modelSize\<close> the bounding-box size of the model that the click selects.
\<close>

record clickEvent =
  clientX :: real
  clientY :: real
  innerWidth :: real
  innerHeight :: real
  click_intersects :: "object3d list"
  click_modelSize :: vec3
  click_now :: real

definition onClick :: "clickEvent \<Rightarrow> state \<Rightarrow> state" where
  "onClick event s =
     (if isZooming s then s
      else
        (let s1 = s\<lparr> mouse := (clientX event / innerWidth event * 2 - 1,
                               - (clientY event / innerHeight event) * 2 + 1) \<rparr>
         in case click_intersects event of
              [] \<Rightarrow> s1
            | hoveredObject # _ \<Rightarrow>
                (case labelledAncestor hoveredObject of
                   None \<Rightarrow> s1
                 | Some parentModel \<Rightarrow>
                     zoomToModel parentModel (click_modelSize event) (click_now event)
                       (s1\<lparr> selectedModel := Some parentModel \<rparr>))))"

subsection \<open>Leaving the focus\<close>

definition animateReset :: "resetClosure \<Rightarrow> real \<Rightarrow> state \<Rightarrow> state" where
  "animateReset c now s =
     (let animationDuration = 1500;
          elapsed = now - rc_startTime c;
          progress = min (elapsed / animationDuration) 1;
          easeProgress = 1 - (1 - progress) ^ 3;
          s1 = s\<lparr> camera_position :=
                    lerpVectors (rc_startPosition c) finalCameraPosition easeProgress,
                  controls_target :=
                    lerpVectors (rc_startTarget c) (Vector3 0 0 6) easeProgress \<rparr>
      in if progress < 1 then s1\<lparr> resetTween := Some c \<rparr>
         else s1\<lparr> resetTween := None,
                  isZooming := False,
                  controls_enabled := True,
                  controls_minDistance := 3,
                  controls_maxDistance := 100,
                  selectedModel := None,
                  overlay_display := DisplayNone \<rparr>)"

text \<open>
  The guard of \<^verbatim>\<open>resetView\<close> is
  \<^verbatim>\<open>!isZooming && !contentOverlay.style.display === 'block'\<close>. The negation binds tighter
  than the comparison, so the second operand compares a boolean with a string by
  \<^verbatim>\<open>===\<close>, which is false whatever the display is.
\<close>

definition not_display_is_block :: "display \<Rightarrow> bool" where
  "not_display_is_block d = False"

definition resetView :: "real \<Rightarrow> state \<Rightarrow> state" where
  "resetView now s =
     (if \<not> isZooming s \<and> not_display_is_block (overlay_display s) then s
      else
        (let c = \<lparr> rc_startPosition = camera_position s,
                   rc_startTarget = controls_target s,
                   rc_startTime = now \<rparr>;
             s1 = animateReset c now (s\<lparr> isZooming := True, controls_enabled := False \<rparr>)
         in s1\<lparr> overlay_display := DisplayNone \<rparr>))"

subsection \<open>The frame loop\<close>

definition cameraOrbitSpeed :: real where
  "cameraOrbitSpeed = 0.02"

definition cameraOrbitRadius :: real where
  "cameraOrbitRadius = 4"

definition cameraOrbitHeight :: real where
  "cameraOrbitHeight = 0.8"

definition centerPoint :: vec3 where
  "centerPoint = Vector3 0 0.7 6"

text \<open>
  What one call of \<^verbatim>\<open>animate\<close> reads from outside: \<^verbatim>\<open>Date.now()\<close>, the objects of
  the intersections of the pointer ray with the papers (nearest first), and what
  \<^verbatim>\<open>controls.update()\<close> of the library makes of the camera position.
\<close>

record frame =
  frame_now :: real
  frame_intersects :: "object3d list"
  frame_controls_update :: "vec3 \<Rightarrow> vec3"

text \<open>The camera part of \<^verbatim>\<open>animate\<close>: the idle orbit, or the library's controls.\<close>

definition animate_orbit :: "frame \<Rightarrow> state \<Rightarrow> state" where
  "animate_orbit f s =
     (let time = frame_now f * 0.001 in
      if initialAnimationComplete s \<and> \<not> isZooming s \<and> selectedModel s = None then
        (let angle = cameraOrbitAngle s - cameraOrbitSpeed * 0.005;
             newX = cos angle * cameraOrbitRadius;
             newZ = sin angle * cameraOrbitRadius + 6;
             newY = cameraOrbitHeight + sin (time * 0.3) * 0.2
         in s\<lparr> cameraOrbitAngle := angle,
               camera_position := Vector3 newX newY newZ,
               camera_lookAt := Some centerPoint \<rparr>)
      else if initialAnimationComplete s then
        s\<lparr> camera_position := frame_controls_update f (camera_position s) \<rparr>
      else s)"

text \<open>The loop that resets the opacity of every paper's label.\<close>

definition resetLabel :: "object3d \<Rightarrow> (nat \<Rightarrow> real) \<Rightarrow> (nat \<Rightarrow> real)" where
  "resetLabel paper op =
     (case userData_label paper of
        None \<Rightarrow> op
      | Some label \<Rightarrow> op(material_id (material label) := 0))"

text \<open>The hover part of \<^verbatim>\<open>animate\<close>: label opacities and the sound.\<close>

definition animate_hover :: "frame \<Rightarrow> state \<Rightarrow> state" where
  "animate_hover f s =
     (let s1 = s\<lparr> opacity := fold resetLabel (papers s) (opacity s) \<rparr> in
      case frame_intersects f of
        [] \<Rightarrow> s1\<lparr> lastHoveredModel := None \<rparr>
      | hoveredObject # _ \<Rightarrow>
          (case labelledAncestor hoveredObject of
             None \<Rightarrow> s1
           | Some parentModel \<Rightarrow>
               (case userData_label parentModel of
                  None \<Rightarrow> s1
                | Some label \<Rightarrow>
                    (let s2 = s1\<lparr> opacity := (opacity s1)(material_id (material label) := 0.8) \<rparr>
                     in if lastHoveredModel s2 \<noteq> Some parentModel
                        then s2\<lparr> hoverSound_plays := Suc (hoverSound_plays s2),
                                 lastHoveredModel := Some parentModel \<rparr>
                        else s2))))"

text \<open>The floating of the papers (their rotation is not part of the state).\<close>

definition floatPaper :: "real \<Rightarrow> object3d \<Rightarrow> (nat \<Rightarrow> vec3) \<Rightarrow> (nat \<Rightarrow> vec3)" where
  "floatPaper time paper pos =
     (let initialPos = initialPosition (userData_float paper);
          floatSpeed = floatSpeed (userData_float paper);
          offset = floatOffset (userData_float paper);
          floatRadius = floatRadius (userData_float paper) * 0.7
      in pos(uuid paper :=
           Vector3 (vx initialPos + sin (time * floatSpeed + offset) * floatRadius)
                   (vy initialPos + sin (time * floatSpeed * 1.5 + offset) * floatRadius)
                   (vz initialPos + cos (time * floatSpeed + offset) * (floatRadius * 0.5))))"

definition animate_float :: "frame \<Rightarrow> state \<Rightarrow> state" where
  "animate_float f s =
     s\<lparr> position := fold (floatPaper (frame_now f * 0.001)) (papers s) (position s) \<rparr>"

definition animate :: "frame \<Rightarrow> state \<Rightarrow> state" where
  "animate f s = animate_float f (animate_hover f (animate_orbit f s))"

definition onMouseMove :: "real \<Rightarrow> real \<Rightarrow> real \<Rightarrow> real \<Rightarrow> state \<Rightarrow> state" where
  "onMouseMove cx cy w h s = s\<lparr> mouse := (cx / w * 2 - 1, - (cy / h) * 2 + 1) \<rparr>"

subsection \<open>Events\<close>

text \<open>
  The browser calls the module's functions one at a time. \<open>IntroFrame\<close>, \<open>ZoomFrame\<close>
  and \<open>ResetFrame\<close> are animation frames of the three tweens: each runs its function
  only while that function is requested, which for the intro is until it completes.
  \<open>CloseClick\<close> is a click on the overlay's close button, which can be clicked only
  while the overlay is displayed: its listener runs \<^verbatim>\<open>resetView\<close>, and the click then
  reaches the window's listener \<^verbatim>\<open>onClick\<close>.
\<close>

datatype event =
    Click clickEvent
  | CloseClick clickEvent
  | MouseMove real real real real
  | IntroFrame real
  | ZoomFrame real
  | ResetFrame real
  | AnimateFrame frame
  | PaperLoaded nat floatParams string nat

fun step :: "event \<Rightarrow> state \<Rightarrow> state" where
  "step (Click e) s = onClick e s"
| "step (CloseClick e) s =
     (if overlay_display s = DisplayBlock then onClick e (resetView (click_now e) s) else s)"
| "step (MouseMove cx cy w h) s = onMouseMove cx cy w h s"
| "step (IntroFrame timestamp) s =
     (if initialAnimationComplete s then s else initialCameraAnimation timestamp s)"
| "step (ZoomFrame now) s =
     (case zoomTween s of None \<Rightarrow> s | Some c \<Rightarrow> animateCamera c now s)"
| "step (ResetFrame now) s =
     (case resetTween s of None \<Rightarrow> s | Some c \<Rightarrow> animateReset c now s)"
| "step (AnimateFrame f) s = animate f s"
| "step (PaperLoaded u fp text mid) s = createPaper_loaded u fp text mid s"

definition run :: "event list \<Rightarrow> state \<Rightarrow> state" where
  "run evs s = fold step evs s"

subsection \<open>The states of the interaction state machine\<close>

text \<open>
  The module has no variable that names the machine's state; the state is read off
  the flag and the requested tween functions. \<open>Intro\<close> is the time before the machine's
  initial state \<open>Idle\<close> is entered.
\<close>

datatype phase = Intro | Idle | FocusTweenIn | Focused | FocusTweenOut

definition phase :: "state \<Rightarrow> phase" where
  "phase s =
     (if resetTween s \<noteq> None then FocusTweenOut
      else if zoomTween s \<noteq> None then FocusTweenIn
      else if isZooming s then Focused
      else if initialAnimationComplete s then Idle
      else Intro)"

text \<open>
  What holds of the variables in every state that the events lead to: a requested tween
  function and a displayed overlay imply the flag, the two tweens and the displayed
  overlay exclude each other, the flag is set exactly while a model is selected, and
  the zoom limits have their defaults while the flag is clear.
\<close>

definition consistent :: "state \<Rightarrow> bool" where
  "consistent s \<longleftrightarrow>
     (zoomTween s \<noteq> None \<longrightarrow> isZooming s \<and> resetTween s = None) \<and>
     (resetTween s \<noteq> None \<longrightarrow> isZooming s) \<and>
     (overlay_display s = DisplayBlock \<longrightarrow>
        isZooming s \<and> zoomTween s = None \<and> resetTween s = None) \<and>
     (isZooming s \<longleftrightarrow> selectedModel s \<noteq> None) \<and>
     (\<not> isZooming s \<longrightarrow> controls_minDistance s = 3 \<and> controls_maxDistance s = 100)"

subsection \<open>Notions used in the statements\<close>

text \<open>
  The item that a frame hovers: the owner of the nearest hit of the pointer ray, if the
  ray hits anything and the hit has an owner.
\<close>

definition hovered :: "frame \<Rightarrow> object3d option" where
  "hovered f =
     (case frame_intersects f of [] \<Rightarrow> None | hoveredObject # _ \<Rightarrow> labelledAncestor hoveredObject)"




text \<open>A click that selects a model: its ray hits an object that has an owner.\<close>

fun selecting_click :: "event \<Rightarrow> bool" where
  "selecting_click (Click e) =
     (case click_intersects e of [] \<Rightarrow> False | hoveredObject # _ \<Rightarrow> labelledAncestor hoveredObject \<noteq> None)"
| "selecting_click _ = False"

fun animate_frame :: "event \<Rightarrow> bool" where
  "animate_frame (AnimateFrame f) = True"
| "animate_frame _ = False"

text \<open>
  The state of a session in which no model has been selected yet: nothing is in flight,
  and while the intro runs the controls are disabled and the orbit has not moved.
\<close>

definition untouched :: "state \<Rightarrow> bool" where
  "untouched s \<longleftrightarrow>
     \<not> isZooming s \<and> zoomTween s = None \<and> resetTween s = None \<and>
     overlay_display s = DisplayNone \<and>
     (\<not> initialAnimationComplete s \<longrightarrow> \<not> controls_enabled s \<and> cameraOrbitAngle s = pi / 2)"

subsection \<open>A concrete scene\<close>

text \<open>
  A content table with one entry, two loaded papers (the label of the second has no
  entry in the table), a mesh inside the first paper that the pointer ray hits, and the
  states of one cycle of the machine: the intro running, the idle orbit, the focus-in
  tween, the focus, the reset tween and the idle orbit again. A mesh carries no
  animation parameters of its own; the ones given to it here are never read.
\<close>

definition example_table :: "string \<Rightarrow> string option" where
  "example_table = [''Mes Projets'' \<mapsto> ''Project Ecology Simulation'']"

definition example_params :: floatParams where
  "example_params =
     \<lparr> initialPosition = Vector3 1 0 6, floatSpeed = 0.002, rotationSpeed = 0.001,
       floatOffset = 0, floatRadius = 0.2 \<rparr>"

definition example_paper :: object3d where
  "example_paper = Object3D 1 (Some (createLabel ''Mes Projets'' 7)) example_params None"

definition example_other :: object3d where
  "example_other = Object3D 3 (Some (createLabel ''Inconnu'' 8)) example_params None"

definition example_mesh :: object3d where
  "example_mesh = Object3D 2 None example_params (Some example_paper)"

definition example_click :: clickEvent where
  "example_click =
     \<lparr> clientX = 400, clientY = 300, innerWidth = 800, innerHeight = 600,
       click_intersects = [example_mesh], click_modelSize = Vector3 0.4 0.6 0.1,
       click_now = 10000 \<rparr>"

definition example_intro :: state where
  "example_intro =
     run [PaperLoaded 1 example_params ''Mes Projets'' 7,
          PaperLoaded 3 example_params ''Inconnu'' 8,
          IntroFrame 1]
       (initial_state example_table)"

definition example_idle :: state where
  "example_idle = run [IntroFrame 8001] example_intro"

definition example_closure :: zoomClosure where
  "example_closure =
     \<lparr> zc_model = example_paper,
       zc_modelPosition = Vector3 1 0 6,
       zc_zoomDistance = 1.2,
       zc_targetPosition = Vector3 1 0.2 7.2,
       zc_startPosition = Vector3 0 2 8,
       zc_startTarget = Vector3 0 0 6,
       zc_startTime = 10000 \<rparr>"

definition example_zooming :: state where
  "example_zooming = run [Click example_click] example_idle"

definition example_focused :: state where
  "example_focused = run [ZoomFrame 11200] example_zooming"

definition example_close :: clickEvent where
  "example_close = example_click\<lparr> click_now := 11500 \<rparr>"

definition example_resetting :: state where
  "example_resetting = run [CloseClick example_close] example_focused"

definition example_restored :: state where
  "example_restored = run [ResetFrame 13000] example_resetting"




definition example_frame :: frame where
  "example_frame =
     \<lparr> frame_now = 20000, frame_intersects = [example_mesh], frame_controls_update = (\<lambda>p. p) \<rparr>"

definition example_frame_away :: frame where
  "example_frame_away = example_frame\<lparr> frame_intersects := [] \<rparr>"


section \<open>Basic facts\<close>

subsection \<open>What each function leaves alone\<close>

lemma showContent_fields [simp]:
  "isZooming (showContent m s) = isZooming s"
  "zoomTween (showContent m s) = zoomTween s"
  "resetTween (showContent m s) = resetTween s"
  "selectedModel (showContent m s) = selectedModel s"
  "controls_minDistance (showContent m s) = controls_minDistance s"
  "controls_maxDistance (showContent m s) = controls_maxDistance s"
  "controls_enabled (showContent m s) = controls_enabled s"
  "camera_position (showContent m s) = camera_position s"
  "controls_target (showContent m s) = controls_target s"
  "camera_lookAt (showContent m s) = camera_lookAt s"
  "initialAnimationComplete (showContent m s) = initialAnimationComplete s"
  by (simp_all add: showContent_def Let_def split: option.splits)

lemma labelledAncestor_label:
  "labelledAncestor h = Some q \<Longrightarrow> userData_label q \<noteq> None"
  by (induction h rule: labelledAncestor.induct) (auto split: option.splits)

lemma progress_less_1: "0 < d \<Longrightarrow> min (x / d) 1 < (1::real) \<longleftrightarrow> x < d"
  by (simp add: min_less_iff_disj)

lemma progress_eq_1: "0 < d \<Longrightarrow> min (x / d) 1 = (1::real) \<longleftrightarrow> d \<le> x"
  by (simp add: min_def)

lemma onClick_ignored: "isZooming s \<Longrightarrow> onClick e s = s"
  by (simp add: onClick_def)

lemma isZooming_animate [simp]: "isZooming (animate f s) = isZooming s"
  by (simp add: animate_def animate_float_def animate_hover_def animate_orbit_def Let_def
      split: list.splits option.splits)

lemma isZooming_animateCamera [simp]: "isZooming (animateCamera c now s) = isZooming s"
  by (simp add: animateCamera_def Let_def)

lemma isZooming_zoomToModel [simp]: "isZooming (zoomToModel m sz now s)"
  by (simp add: zoomToModel_def Let_def)

lemma isZooming_onClick: "isZooming s \<Longrightarrow> isZooming (onClick e s)"
  by (simp add: onClick_def)

lemma isZooming_resetView: "isZooming s \<Longrightarrow> isZooming (resetView now s)"
  by (simp add: resetView_def animateReset_def Let_def not_display_is_block_def)

lemma isZooming_intro [simp]: "isZooming (initialCameraAnimation t s) = isZooming s"
  by (simp add: initialCameraAnimation_def Let_def)

lemma isZooming_animateReset:
  "isZooming (animateReset c now s) \<longleftrightarrow> isZooming s \<and> now - rc_startTime c < 1500"
  by (auto simp add: animateReset_def Let_def progress_less_1)

subsection \<open>The intro never completes twice\<close>

lemma complete_onClick:
  "initialAnimationComplete s \<Longrightarrow> initialAnimationComplete (onClick e s)"
  by (simp add: onClick_def zoomToModel_def animateCamera_def Let_def
      split: list.splits option.splits)

lemma complete_animate:
  "initialAnimationComplete s \<Longrightarrow> initialAnimationComplete (animate f s)"
  by (simp add: animate_def animate_float_def animate_hover_def animate_orbit_def Let_def
      split: list.splits option.splits)

lemma complete_step:
  "initialAnimationComplete s \<Longrightarrow> initialAnimationComplete (step e s)"
  by (cases e)
     (simp_all add: complete_onClick complete_animate resetView_def animateReset_def
        animateCamera_def onMouseMove_def createPaper_loaded_def Let_def split: option.splits)

lemma complete_run:
  "initialAnimationComplete s \<Longrightarrow> initialAnimationComplete (run evs s)"
  unfolding run_def by (induction evs arbitrary: s) (simp_all add: complete_step)

subsection \<open>Every event keeps the variables consistent\<close>

lemma consistent_initial: "consistent (initial_state tbl)"
  by (simp add: consistent_def initial_state_def)

lemma consistent_animateCamera:
  "consistent s \<Longrightarrow> zoomTween s = Some c \<Longrightarrow> consistent (animateCamera c now s)"
  by (auto simp add: consistent_def animateCamera_def Let_def)

lemma consistent_onClick: "consistent s \<Longrightarrow> consistent (onClick e s)"
  by (auto simp add: onClick_def Let_def consistent_def zoomToModel_def animateCamera_def
      split: list.splits option.splits)

lemma consistent_animateReset:
  "consistent s \<Longrightarrow> resetTween s = Some c \<Longrightarrow> consistent (animateReset c now s)"
  by (auto simp add: consistent_def animateReset_def Let_def)

lemma consistent_resetView:
  "consistent s \<Longrightarrow> overlay_display s = DisplayBlock \<Longrightarrow> consistent (resetView now s)"
  by (auto simp add: consistent_def resetView_def animateReset_def Let_def
      not_display_is_block_def)

lemma consistent_intro: "consistent s \<Longrightarrow> consistent (initialCameraAnimation t s)"
  by (auto simp add: consistent_def initialCameraAnimation_def Let_def)

lemma consistent_animate: "consistent s \<Longrightarrow> consistent (animate f s)"
  by (auto simp add: consistent_def animate_def animate_float_def animate_hover_def
      animate_orbit_def Let_def split: list.splits option.splits)

lemma consistent_onMouseMove: "consistent s \<Longrightarrow> consistent (onMouseMove cx cy w h s)"
  by (auto simp add: consistent_def onMouseMove_def)

lemma consistent_createPaper_loaded:
  "consistent s \<Longrightarrow> consistent (createPaper_loaded u fp text mid s)"
  by (auto simp add: consistent_def createPaper_loaded_def Let_def)

lemma consistent_step: "consistent s \<Longrightarrow> consistent (step e s)"
proof (cases e)
  case (CloseClick c)
  then show "consistent s \<Longrightarrow> ?thesis"
    by (simp add: consistent_onClick consistent_resetView)
next
  case (ZoomFrame now)
  then show "consistent s \<Longrightarrow> ?thesis"
    by (simp add: consistent_animateCamera split: option.splits)
next
  case (ResetFrame now)
  then show "consistent s \<Longrightarrow> ?thesis"
    by (simp add: consistent_animateReset split: option.splits)
qed (simp_all add: consistent_onClick consistent_intro consistent_animate
       consistent_onMouseMove consistent_createPaper_loaded)

lemma consistent_run: "consistent s \<Longrightarrow> consistent (run evs s)"
  unfolding run_def by (induction evs arbitrary: s) (simp_all add: consistent_step)

lemma phase_in_flight:
  "consistent s \<Longrightarrow> phase s \<in> {FocusTweenIn, Focused, FocusTweenOut} \<longleftrightarrow> isZooming s"
  by (auto simp add: consistent_def phase_def)

lemma phase_Idle_iff:
  "consistent s \<Longrightarrow> phase s = Idle \<longleftrightarrow> initialAnimationComplete s \<and> \<not> isZooming s"
  by (auto simp add: consistent_def phase_def)

subsection \<open>The concrete scene, evaluated\<close>

lemma example_intro_eq:
  "example_intro =
     (initial_state example_table)
       \<lparr> camera_rotation_x := - pi / 2,
         initialAnimationStartTime := Some 1,
         papers := [example_paper, example_other],
         position := (\<lambda>_. Vector3 0 0 0)(1 := Vector3 1 0 6, 3 := Vector3 1 0 6),
         opacity := (\<lambda>_. 0)(7 := 0, 8 := 0) \<rparr>"
  by (simp add: example_intro_def run_def createPaper_loaded_def initialCameraAnimation_def
      initial_state_def example_paper_def example_other_def example_params_def Let_def)

lemma example_idle_eq:
  "example_idle =
     example_intro
       \<lparr> camera_position := Vector3 0 2 8,
         camera_rotation_x := 0,
         controls_enabled := True,
         initialAnimationComplete := True \<rparr>"
  by (simp add: example_idle_def run_def example_intro_eq initialCameraAnimation_def
      initial_state_def Let_def)

lemma labelledAncestor_example_mesh: "labelledAncestor example_mesh = Some example_paper"
  by (simp add: example_mesh_def example_paper_def)

lemma example_zooming_eq:
  "example_zooming =
     example_idle
       \<lparr> camera_lookAt := Some (Vector3 1 0 6),
         controls_enabled := False,
         isZooming := True,
         selectedModel := Some example_paper,
         zoomTween := Some example_closure \<rparr>"
  by (simp add: example_zooming_def run_def example_idle_eq example_intro_eq initial_state_def
      onClick_def example_click_def labelledAncestor_example_mesh zoomToModel_def
      animateCamera_def Let_def example_closure_def lerpVectors_def add_def
      example_paper_def)

lemma example_focused_eq:
  "example_focused =
     example_zooming
       \<lparr> camera_position := Vector3 1 0.2 7.2,
         controls_target := Vector3 1 0 6,
         controls_enabled := True,
         controls_minDistance := 0.6,
         controls_maxDistance := 2.4,
         zoomTween := None,
         overlay_innerHTML := Some (''Mes Projets'', ''Project Ecology Simulation''),
         overlay_display := DisplayBlock \<rparr>"
  by (simp add: example_focused_def run_def example_zooming_eq example_idle_eq example_intro_eq
      initial_state_def animateCamera_def Let_def example_closure_def lerpVectors_def
      showContent_def labelText_of_def example_paper_def createLabel_def example_table_def)

lemma example_resetting_eq:
  "example_resetting =
     example_focused
       \<lparr> controls_enabled := False,
         resetTween := Some \<lparr> rc_startPosition = Vector3 1 0.2 7.2,
                               rc_startTarget = Vector3 1 0 6,
                               rc_startTime = 11500 \<rparr>,
         overlay_display := DisplayNone \<rparr>"
  by (simp add: example_resetting_def run_def example_focused_eq example_zooming_eq
      example_idle_eq example_intro_eq initial_state_def resetView_def animateReset_def
      onClick_def example_close_def example_click_def Let_def lerpVectors_def
      not_display_is_block_def)

lemma example_restored_eq:
  "example_restored =
     example_idle
       \<lparr> camera_lookAt := Some (Vector3 1 0 6),
         overlay_innerHTML := Some (''Mes Projets'', ''Project Ecology Simulation'') \<rparr>"
  by (simp add: example_restored_def run_def example_resetting_eq example_focused_eq
      example_zooming_eq example_idle_eq example_intro_eq initial_state_def animateReset_def
      Let_def lerpVectors_def finalCameraPosition_def)

lemmas example_states =
  example_restored_eq example_resetting_eq example_focused_eq example_zooming_eq
  example_idle_eq example_intro_eq initial_state_def

lemma example_consistent:
  "consistent example_intro" "consistent example_idle" "consistent example_zooming"
  "consistent example_focused" "consistent example_resetting" "consistent example_restored"
  by (simp_all add: example_states consistent_def)

lemma example_phase:
  "phase example_intro = Intro" "phase example_idle = Idle"
  "phase example_zooming = FocusTweenIn" "phase example_focused = Focused"
  "phase example_resetting = FocusTweenOut" "phase example_restored = Idle"
  by (simp_all add: example_states phase_def)

subsection \<open>Tweens, hover and sound\<close>

lemma lerpVectors_1 [simp]: "lerpVectors a b 1 = b"
  by (cases b) (simp add: lerpVectors_def)

lemma lerpVectors_0 [simp]: "lerpVectors a b 0 = a"
  by (cases a) (simp add: lerpVectors_def)

lemma animateCamera_complete:
  assumes "1200 \<le> now - zc_startTime c"
  shows "animateCamera c now s =
           showContent (Some (zc_model c))
             (s\<lparr> camera_position := zc_targetPosition c,
                  controls_target := zc_modelPosition c,
                  camera_lookAt := Some (zc_modelPosition c),
                  zoomTween := None,
                  controls_enabled := True,
                  controls_minDistance := zc_zoomDistance c * 0.5,
                  controls_maxDistance := zc_zoomDistance c * 2 \<rparr>)"
proof -
  have "min ((now - zc_startTime c) / 1200) 1 = 1"
    using assms by (simp add: progress_eq_1)
  then show ?thesis by (simp add: animateCamera_def Let_def)
qed

lemma animateCamera_running:
  assumes "now - zc_startTime c < 1200"
  shows "zoomTween (animateCamera c now s) = Some c"
    "controls_minDistance (animateCamera c now s) = controls_minDistance s"
    "controls_maxDistance (animateCamera c now s) = controls_maxDistance s"
    "overlay_display (animateCamera c now s) = overlay_display s"
    "overlay_innerHTML (animateCamera c now s) = overlay_innerHTML s"
    "console_errors (animateCamera c now s) = console_errors s"
    "resetTween (animateCamera c now s) = resetTween s"
proof -
  have "min ((now - zc_startTime c) / 1200) 1 < 1"
    using assms by (simp add: progress_less_1)
  then show "zoomTween (animateCamera c now s) = Some c"
    "controls_minDistance (animateCamera c now s) = controls_minDistance s"
    "controls_maxDistance (animateCamera c now s) = controls_maxDistance s"
    "overlay_display (animateCamera c now s) = overlay_display s"
    "overlay_innerHTML (animateCamera c now s) = overlay_innerHTML s"
    "console_errors (animateCamera c now s) = console_errors s"
    "resetTween (animateCamera c now s) = resetTween s"
    by (simp_all add: animateCamera_def Let_def)
qed

lemma showContent_found:
  assumes "userData_label m = Some (createLabel t mid)"
    and "sectionContent s t = Some content" and "content \<noteq> []"
  shows "showContent (Some m) s =
           s\<lparr> overlay_innerHTML := Some (t, content), overlay_display := DisplayBlock \<rparr>"
  using assms by (auto simp add: showContent_def createLabel_def labelText_of_def Let_def)

lemma zoomToModel_closure:
  "zoomTween (zoomToModel m sz t0 s) =
     Some \<lparr> zc_model = m,
            zc_modelPosition = position s (uuid m),
            zc_zoomDistance = max (max (vx sz) (vy sz)) (vz sz) * 2,
            zc_targetPosition =
              add (position s (uuid m)) (Vector3 0 0.2 (max (max (vx sz) (vy sz)) (vz sz) * 2)),
            zc_startPosition = camera_position s,
            zc_startTarget = controls_target s,
            zc_startTime = t0 \<rparr>"
  by (simp add: zoomToModel_def animateCamera_def Let_def)


lemma resetTween_animate [simp]: "resetTween (animate f s) = resetTween s"
  by (simp add: animate_def animate_float_def animate_hover_def animate_orbit_def Let_def
      split: list.splits option.splits)

lemma zoomTween_animate [simp]: "zoomTween (animate f s) = zoomTween s"
  by (simp add: animate_def animate_float_def animate_hover_def animate_orbit_def Let_def
      split: list.splits option.splits)

lemma animate_camera:
  "camera_position (animate f s) = camera_position (animate_orbit f s)"
  "cameraOrbitAngle (animate f s) = cameraOrbitAngle (animate_orbit f s)"
  "camera_lookAt (animate f s) = camera_lookAt (animate_orbit f s)"
  by (simp_all add: animate_def animate_float_def animate_hover_def Let_def
      split: list.splits option.splits)


lemma untouched_initial: "untouched (initial_state tbl)"
  by (simp add: untouched_def initial_state_def)

lemma untouched_step:
  assumes "untouched s" and "\<not> selecting_click e"
  shows "untouched (step e s)"
proof (cases e)
  case (Click x)
  with assms show ?thesis
    by (auto simp add: untouched_def onClick_def Let_def split: list.splits option.splits)
next
  case (CloseClick x)
  with assms show ?thesis by (auto simp add: untouched_def)
next
  case (MouseMove a b c d)
  with assms show ?thesis by (auto simp add: untouched_def onMouseMove_def)
next
  case (IntroFrame t)
  with assms show ?thesis by (auto simp add: untouched_def initialCameraAnimation_def Let_def)
next
  case (ZoomFrame t)
  with assms show ?thesis by (auto simp add: untouched_def)
next
  case (ResetFrame t)
  with assms show ?thesis by (auto simp add: untouched_def)
next
  case (AnimateFrame f)
  with assms show ?thesis
    by (auto simp add: untouched_def animate_def animate_float_def animate_hover_def
        animate_orbit_def Let_def split: list.splits option.splits)
next
  case (PaperLoaded a b c d)
  with assms show ?thesis by (auto simp add: untouched_def createPaper_loaded_def Let_def)
qed

lemma untouched_run:
  "untouched s \<Longrightarrow> list_all (\<lambda>e. \<not> selecting_click e) evs \<Longrightarrow> untouched (run evs s)"
  unfolding run_def by (induction evs arbitrary: s) (simp_all add: untouched_step)


lemma animate_orbit_papers [simp]:
  "papers (animate_orbit f s) = papers s"
  "opacity (animate_orbit f s) = opacity s"
  "lastHoveredModel (animate_orbit f s) = lastHoveredModel s"
  "hoverSound_plays (animate_orbit f s) = hoverSound_plays s"
  by (simp_all add: animate_orbit_def Let_def)



lemma animate_sound:
  "hoverSound_plays (animate f s) =
     (if hovered f \<noteq> None \<and> hovered f \<noteq> lastHoveredModel s
      then Suc (hoverSound_plays s) else hoverSound_plays s)"
  "lastHoveredModel (animate f s) =
     (if frame_intersects f = [] then None
      else if hovered f = None then lastHoveredModel s else hovered f)"
  by (auto simp add: animate_def animate_float_def animate_hover_def hovered_def Let_def
      dest: labelledAncestor_label split: list.splits option.splits)

lemma animate_lastHovered:
  "hovered f = Some q \<Longrightarrow> lastHoveredModel (animate f s) = Some q"
  by (auto simp add: animate_sound(2) hovered_def)

lemma showContent_sound [simp]:
  "hoverSound_plays (showContent m s) = hoverSound_plays s"
  "lastHoveredModel (showContent m s) = lastHoveredModel s"
  by (simp_all add: showContent_def Let_def split: option.splits)

lemma onClick_sound [simp]:
  "hoverSound_plays (onClick e s) = hoverSound_plays s"
  "lastHoveredModel (onClick e s) = lastHoveredModel s"
  by (simp_all add: onClick_def zoomToModel_def animateCamera_def Let_def
      split: list.splits option.splits)

lemma step_sound:
  assumes "\<not> animate_frame e"
  shows "hoverSound_plays (step e s) = hoverSound_plays s \<and>
         lastHoveredModel (step e s) = lastHoveredModel s"
  using assms
  by (cases e)
     (simp_all add: resetView_def animateReset_def animateCamera_def initialCameraAnimation_def
        onMouseMove_def createPaper_loaded_def Let_def not_display_is_block_def
        split: option.splits)

lemma run_sound:
  "list_all (\<lambda>e. \<not> animate_frame e) evs \<Longrightarrow>
     hoverSound_plays (run evs s) = hoverSound_plays s \<and>
     lastHoveredModel (run evs s) = lastHoveredModel s"
  unfolding run_def by (induction evs arbitrary: s) (simp_all add: step_sound)


lemma hovered_example:
  "hovered example_frame = Some example_paper" "hovered example_frame_away = None"
  by (simp_all add: hovered_def example_frame_def example_frame_away_def
      labelledAncestor_example_mesh)




section \<open>The claims\<close>

text \<open>
  C1. The machine is single-flight. In every state that the events lead to, a click
  received while the machine is in \<open>FocusTweenIn\<close>, \<open>Focused\<close> or \<open>FocusTweenOut\<close>
  changes nothing: no transition, no new tween. And once a click in \<open>Idle\<close> has
  started a focus-in tween, whatever events follow, a later click has an effect only
  in a state where the machine is \<open>Idle\<close> again; so \<open>FocusTweenIn\<close> is not entered
  for a second click before the machine has returned to \<open>Idle\<close>.
\<close>

theorem single_flight:
  assumes "consistent s0"
  shows "(\<forall>evs e. phase (run evs s0) \<in> {FocusTweenIn, Focused, FocusTweenOut}
            \<longrightarrow> step (Click e) (run evs s0) = run evs s0) \<and>
         (\<forall>e1 evs e2. phase s0 = Idle \<and> phase (step (Click e1) s0) = FocusTweenIn
            \<longrightarrow> step (Click e2) (run evs (step (Click e1) s0)) \<noteq> run evs (step (Click e1) s0)
            \<longrightarrow> phase (run evs (step (Click e1) s0)) = Idle)"
proof (intro conjI allI impI)
  fix evs e
  assume "phase (run evs s0) \<in> {FocusTweenIn, Focused, FocusTweenOut}"
  moreover have "consistent (run evs s0)" using assms by (rule consistent_run)
  ultimately have "isZooming (run evs s0)" using phase_in_flight by blast
  then show "step (Click e) (run evs s0) = run evs s0" by (simp add: onClick_ignored)
next
  fix e1 evs e2
  let ?s = "run evs (step (Click e1) s0)"
  assume idle: "phase s0 = Idle \<and> phase (step (Click e1) s0) = FocusTweenIn"
  assume "step (Click e2) ?s \<noteq> ?s"
  then have nz: "\<not> isZooming ?s" using onClick_ignored by auto
  have "initialAnimationComplete s0" using assms idle by (simp add: phase_Idle_iff)
  then have c: "initialAnimationComplete ?s" by (intro complete_run complete_step)
  have "consistent ?s" using assms by (intro consistent_run consistent_step)
  then show "phase ?s = Idle" using nz c by (simp add: phase_Idle_iff)
qed

text \<open>
  In the concrete scene: the click in \<open>Idle\<close> starts the tween; the same click again
  during the tween, in the focus and during the reset changes nothing; after the reset
  has completed the machine is \<open>Idle\<close> and a click has an effect again.
\<close>

theorem single_flight_witness:
  "consistent example_idle \<and> phase example_idle = Idle \<and>
   phase (step (Click example_click) example_idle) = FocusTweenIn \<and>
   step (Click example_click) example_zooming = example_zooming \<and>
   step (Click example_click) example_focused = example_focused \<and>
   step (Click example_click) example_resetting = example_resetting \<and>
   step (Click example_click) example_restored \<noteq> example_restored \<and>
   phase example_restored = Idle"
proof -
  let ?c = "Click example_click"
  have z: "step ?c example_idle = example_zooming"
    by (simp add: example_zooming_def run_def)
  have r1: "run [?c] example_idle = example_zooming"
    by (simp add: example_zooming_def)
  have r2: "run [?c, ZoomFrame 11200] example_idle = example_focused"
    by (simp add: example_focused_def example_zooming_def run_def)
  have r3: "run [?c, ZoomFrame 11200, CloseClick example_close] example_idle = example_resetting"
    by (simp add: example_resetting_def example_focused_def example_zooming_def run_def)
  have r4: "run [ZoomFrame 11200, CloseClick example_close, ResetFrame 13000]
              (step ?c example_idle) = example_restored"
    by (simp add: example_restored_def example_resetting_def example_focused_def
        example_zooming_def run_def)
  have eff: "step ?c example_restored \<noteq> example_restored"
  proof
    assume "step ?c example_restored = example_restored"
    then have "isZooming (step ?c example_restored) = isZooming example_restored"
      by simp
    then show False
      by (simp add: example_states onClick_def example_click_def
          labelledAncestor_example_mesh)
  qed
  note sf = single_flight [OF example_consistent(2)]
  from sf have a: "\<And>evs e. phase (run evs example_idle) \<in> {FocusTweenIn, Focused, FocusTweenOut}
            \<Longrightarrow> step (Click e) (run evs example_idle) = run evs example_idle"
    by blast
  from sf have b: "\<And>ea evs eb. phase example_idle = Idle \<and> phase (step (Click ea) example_idle) = FocusTweenIn
            \<Longrightarrow> step (Click eb) (run evs (step (Click ea) example_idle)) \<noteq> run evs (step (Click ea) example_idle)
            \<Longrightarrow> phase (run evs (step (Click ea) example_idle)) = Idle"
    by blast
  have "step ?c example_zooming = example_zooming"
    using a [where evs = "[?c]" and e = example_click] by (simp add: r1 example_phase)
  moreover have "step ?c example_focused = example_focused"
    using a [where evs = "[?c, ZoomFrame 11200]" and e = example_click] by (simp add: r2 example_phase)
  moreover have "step ?c example_resetting = example_resetting"
    using a [where evs = "[?c, ZoomFrame 11200, CloseClick example_close]" and e = example_click]
    by (simp add: r3 example_phase)
  moreover have "phase example_restored = Idle"
    using b [where ea = example_click and eb = example_click
        and evs = "[ZoomFrame 11200, CloseClick example_close, ResetFrame 13000]"] eff
    by (simp only: r4 z example_phase simp_thms)
  moreover have "onClick example_click example_idle = example_zooming"
    using z by simp
  ultimately show ?thesis
    using eff by (simp add: example_consistent example_phase)
qed




text \<open>
  C3, as stated, fails. In the concrete scene, while the intro is running, a click
  on a paper starts the focus-in tween; when that tween completes, the controls are
  enabled although the intro has not completed.
\<close>

theorem intro_click_counterexample:
  "\<not> initialAnimationComplete example_intro \<and>
   phase (step (Click example_click) example_intro) = FocusTweenIn \<and>
   \<not> initialAnimationComplete (run [Click example_click, ZoomFrame 11200] example_intro) \<and>
   controls_enabled (run [Click example_click, ZoomFrame 11200] example_intro)"
  by (simp add: run_def example_states phase_def onClick_def example_click_def
      labelledAncestor_example_mesh zoomToModel_def animateCamera_def Let_def showContent_def
      example_paper_def createLabel_def labelText_of_def example_table_def)

text \<open>
  C3, amended. At startup the intro is not complete and the controls are disabled. As
  long as no click has selected a model and the intro has not completed, the machine
  is in \<open>Intro\<close>, the controls are disabled and the orbit angle has not moved. Before
  the intro completes, the camera part of the frame loop does nothing. The intro frame at
  which 8000 ms have passed since its start, and no earlier one, sets
  \<^verbatim>\<open>initialAnimationComplete\<close>, and it enables the controls.
\<close>

theorem intro_gate:
  "\<not> initialAnimationComplete (initial_state tbl) \<and>
   \<not> controls_enabled (initial_state tbl) \<and>
   (list_all (\<lambda>e. \<not> selecting_click e) evs \<and>
    \<not> initialAnimationComplete (run evs (initial_state tbl)) \<longrightarrow>
      phase (run evs (initial_state tbl)) = Intro \<and>
      \<not> controls_enabled (run evs (initial_state tbl)) \<and>
      cameraOrbitAngle (run evs (initial_state tbl)) = pi / 2) \<and>
   (\<not> initialAnimationComplete s \<longrightarrow> animate_orbit f s = s) \<and>
   (\<not> initialAnimationComplete s \<and> initialAnimationStartTime s = Some t0 \<and> t0 \<noteq> 0 \<longrightarrow>
      (initialAnimationComplete (step (IntroFrame timestamp) s) \<longleftrightarrow> 8000 \<le> timestamp - t0) \<and>
      (8000 \<le> timestamp - t0 \<longrightarrow> controls_enabled (step (IntroFrame timestamp) s)))"
proof (intro conjI impI)
  show "\<not> initialAnimationComplete (initial_state tbl)" "\<not> controls_enabled (initial_state tbl)"
    by (simp_all add: initial_state_def)
  {
    assume a: "list_all (\<lambda>e. \<not> selecting_click e) evs \<and>
      \<not> initialAnimationComplete (run evs (initial_state tbl))"
    then have "untouched (run evs (initial_state tbl))"
      by (simp add: untouched_run untouched_initial)
    with a show "phase (run evs (initial_state tbl)) = Intro"
      "\<not> controls_enabled (run evs (initial_state tbl))"
      "cameraOrbitAngle (run evs (initial_state tbl)) = pi / 2"
      by (simp_all add: untouched_def phase_def)
  }
  {
    assume "\<not> initialAnimationComplete s"
    then show "animate_orbit f s = s" by (simp add: animate_orbit_def)
  }
  {
    assume a: "\<not> initialAnimationComplete s \<and> initialAnimationStartTime s = Some t0 \<and> t0 \<noteq> 0"
    then show "initialAnimationComplete (step (IntroFrame timestamp) s) \<longleftrightarrow> 8000 \<le> timestamp - t0"
      by (auto simp add: initialCameraAnimation_def Let_def progress_less_1)
    assume "8000 \<le> timestamp - t0"
    with a show "controls_enabled (step (IntroFrame timestamp) s)"
      by (auto simp add: initialCameraAnimation_def Let_def progress_less_1)
  }
qed

text \<open>
  C3, amended, in the concrete scene: the intro started at timestamp 1, is not complete
  at 8000 and is complete at 8001.
\<close>

theorem intro_gate_witness:
  "list_all (\<lambda>e. \<not> selecting_click e)
     [PaperLoaded 1 example_params ''Mes Projets'' 7,
      PaperLoaded 3 example_params ''Inconnu'' 8, IntroFrame 1] \<and>
   \<not> initialAnimationComplete example_intro \<and>
   phase example_intro = Intro \<and>
   \<not> controls_enabled example_intro \<and>
   cameraOrbitAngle example_intro = pi / 2 \<and>
   animate_orbit example_frame example_intro = example_intro \<and>
   initialAnimationStartTime example_intro = Some 1 \<and>
   \<not> initialAnimationComplete (step (IntroFrame 8000) example_intro) \<and>
   initialAnimationComplete (step (IntroFrame 8001) example_intro) \<and>
   controls_enabled (step (IntroFrame 8001) example_intro)"
proof -
  let ?evs = "[PaperLoaded 1 example_params ''Mes Projets'' 7,
      PaperLoaded 3 example_params ''Inconnu'' 8, IntroFrame 1]"
  have l: "list_all (\<lambda>e. \<not> selecting_click e) ?evs" by simp
  have r: "run ?evs (initial_state example_table) = example_intro"
    by (simp add: example_intro_def)
  have n: "\<not> initialAnimationComplete example_intro"
    and t: "initialAnimationStartTime example_intro = Some 1"
    by (simp_all add: example_states)
  have a: "phase example_intro = Intro \<and> \<not> controls_enabled example_intro \<and>
      cameraOrbitAngle example_intro = pi / 2"
    using intro_gate [where tbl = example_table and evs = ?evs] l n unfolding r by blast
  have b: "animate_orbit example_frame example_intro = example_intro"
    using intro_gate [where s = example_intro and f = example_frame] n by blast
  have o: "(1::real) \<noteq> 0" by simp
  have "initialAnimationComplete (step (IntroFrame 8001) example_intro) \<longleftrightarrow>
      (8000::real) \<le> 8001 - 1"
    "(8000::real) \<le> 8001 - 1 \<longrightarrow> controls_enabled (step (IntroFrame 8001) example_intro)"
    using intro_gate [where s = example_intro and ?t0.0 = 1 and timestamp = 8001] n t o
    by blast+
  then have c: "initialAnimationComplete (step (IntroFrame 8001) example_intro)"
    "controls_enabled (step (IntroFrame 8001) example_intro)"
    by (simp_all del: step.simps)
  have "initialAnimationComplete (step (IntroFrame 8000) example_intro) \<longleftrightarrow>
      (8000::real) \<le> 8000 - 1"
    using intro_gate [where s = example_intro and ?t0.0 = 1 and timestamp = 8000] n t o
    by blast
  then have d: "\<not> initialAnimationComplete (step (IntroFrame 8000) example_intro)"
    by (simp del: step.simps)
  show ?thesis using l n t a b c d by (simp del: step.simps)
qed



text \<open>
  C5. While the focus-in tween is requested, the frame at which its progress is 1
  takes the machine to \<open>Focused\<close>, sets the zoom limits to 0.5 and 2 times the
  closure's zoom distance and then calls \<^verbatim>\<open>showContent\<close> with the model, which shows
  the model's text when the table has one; a frame at which the progress is below 1
  keeps the machine in \<open>FocusTweenIn\<close> and leaves the zoom limits and the overlay as
  they are. The closure's zoom distance is the one \<^verbatim>\<open>zoomToModel\<close> used for the
  target position: twice the largest dimension of the bounding box.
\<close>

theorem focus_in_completion:
  assumes "consistent s" and "zoomTween s = Some c"
  shows "(min ((now - zc_startTime c) / 1200) 1 = 1 \<longrightarrow>
           phase (step (ZoomFrame now) s) = Focused \<and>
           controls_minDistance (step (ZoomFrame now) s) = 0.5 * zc_zoomDistance c \<and>
           controls_maxDistance (step (ZoomFrame now) s) = 2 * zc_zoomDistance c \<and>
           step (ZoomFrame now) s =
             showContent (Some (zc_model c))
               (s\<lparr> camera_position := zc_targetPosition c,
                    controls_target := zc_modelPosition c,
                    camera_lookAt := Some (zc_modelPosition c),
                    zoomTween := None,
                    controls_enabled := True,
                    controls_minDistance := zc_zoomDistance c * 0.5,
                    controls_maxDistance := zc_zoomDistance c * 2 \<rparr>) \<and>
           (\<forall>t mid content.
              userData_label (zc_model c) = Some (createLabel t mid) \<and>
              sectionContent s t = Some content \<and> content \<noteq> [] \<longrightarrow>
              overlay_display (step (ZoomFrame now) s) = DisplayBlock \<and>
              overlay_innerHTML (step (ZoomFrame now) s) = Some (t, content))) \<and>
         (min ((now - zc_startTime c) / 1200) 1 < 1 \<longrightarrow>
           phase (step (ZoomFrame now) s) = FocusTweenIn \<and>
           controls_minDistance (step (ZoomFrame now) s) = controls_minDistance s \<and>
           controls_maxDistance (step (ZoomFrame now) s) = controls_maxDistance s \<and>
           overlay_display (step (ZoomFrame now) s) = overlay_display s \<and>
           overlay_innerHTML (step (ZoomFrame now) s) = overlay_innerHTML s) \<and>
         (\<forall>m sz t0 s0. zoomTween (zoomToModel m sz t0 s0) = Some c \<longrightarrow>
            zc_model c = m \<and>
            zc_zoomDistance c = 2 * max (max (vx sz) (vy sz)) (vz sz) \<and>
            zc_targetPosition c = add (position s0 (uuid m)) (Vector3 0 0.2 (zc_zoomDistance c)))"
proof (intro conjI impI allI)
  have z: "isZooming s" "resetTween s = None"
    using assms by (auto simp add: consistent_def)
  {
    assume "min ((now - zc_startTime c) / 1200) 1 = 1"
    then have d: "1200 \<le> now - zc_startTime c" by (simp add: progress_eq_1)
    note ac = animateCamera_complete [OF d, of s]
    show "phase (step (ZoomFrame now) s) = Focused"
      using assms z by (simp add: ac phase_def)
    show "controls_minDistance (step (ZoomFrame now) s) = 0.5 * zc_zoomDistance c"
      using assms by (simp add: ac)
    show "controls_maxDistance (step (ZoomFrame now) s) = 2 * zc_zoomDistance c"
      using assms by (simp add: ac)
    show "step (ZoomFrame now) s =
             showContent (Some (zc_model c))
               (s\<lparr> camera_position := zc_targetPosition c,
                    controls_target := zc_modelPosition c,
                    camera_lookAt := Some (zc_modelPosition c),
                    zoomTween := None,
                    controls_enabled := True,
                    controls_minDistance := zc_zoomDistance c * 0.5,
                    controls_maxDistance := zc_zoomDistance c * 2 \<rparr>)"
      using assms by (simp add: ac)
    fix t mid content
    assume f: "userData_label (zc_model c) = Some (createLabel t mid) \<and>
              sectionContent s t = Some content \<and> content \<noteq> []"
    show "overlay_display (step (ZoomFrame now) s) = DisplayBlock"
      using assms f by (simp add: ac showContent_found [where t = t and mid = mid and content = content])
    show "overlay_innerHTML (step (ZoomFrame now) s) = Some (t, content)"
      using assms f by (simp add: ac showContent_found [where t = t and mid = mid and content = content])
  }
  {
    assume "min ((now - zc_startTime c) / 1200) 1 < 1"
    then have d: "now - zc_startTime c < 1200" by (simp add: progress_less_1)
    note ar = animateCamera_running [OF d, of s]
    show "phase (step (ZoomFrame now) s) = FocusTweenIn"
      using assms z by (simp add: ar phase_def)
    show "controls_minDistance (step (ZoomFrame now) s) = controls_minDistance s"
      "controls_maxDistance (step (ZoomFrame now) s) = controls_maxDistance s"
      "overlay_display (step (ZoomFrame now) s) = overlay_display s"
      "overlay_innerHTML (step (ZoomFrame now) s) = overlay_innerHTML s"
      using assms by (simp_all add: ar)
  }
  {
    fix m sz t0 s0
    assume "zoomTween (zoomToModel m sz t0 s0) = Some c"
    then have c: "c = \<lparr> zc_model = m,
            zc_modelPosition = position s0 (uuid m),
            zc_zoomDistance = max (max (vx sz) (vy sz)) (vz sz) * 2,
            zc_targetPosition =
              add (position s0 (uuid m)) (Vector3 0 0.2 (max (max (vx sz) (vy sz)) (vz sz) * 2)),
            zc_startPosition = camera_position s0,
            zc_startTarget = controls_target s0,
            zc_startTime = t0 \<rparr>"
      by (simp add: zoomToModel_closure)
    show "zc_model c = m" by (simp add: c)
    show "zc_zoomDistance c = 2 * max (max (vx sz) (vy sz)) (vz sz)" by (simp add: c)
    show "zc_targetPosition c = add (position s0 (uuid m)) (Vector3 0 0.2 (zc_zoomDistance c))"
      by (simp add: c)
  }
qed

text \<open>
  C5 in the concrete scene: the tween started at 10000 ms with zoom distance 1.2; the
  frame at 11200 ms completes it, the frame at 10600 ms does not.
\<close>

theorem focus_in_completion_witness:
  "consistent example_zooming \<and> zoomTween example_zooming = Some example_closure \<and>
   min ((11200 - zc_startTime example_closure) / 1200) 1 = 1 \<and>
   phase (step (ZoomFrame 11200) example_zooming) = Focused \<and>
   controls_minDistance (step (ZoomFrame 11200) example_zooming) = 0.6 \<and>
   controls_maxDistance (step (ZoomFrame 11200) example_zooming) = 2.4 \<and>
   overlay_display (step (ZoomFrame 11200) example_zooming) = DisplayBlock \<and>
   overlay_innerHTML (step (ZoomFrame 11200) example_zooming) =
     Some (''Mes Projets'', ''Project Ecology Simulation'') \<and>
   min ((10600 - zc_startTime example_closure) / 1200) 1 < 1 \<and>
   phase (step (ZoomFrame 10600) example_zooming) = FocusTweenIn \<and>
   controls_minDistance (step (ZoomFrame 10600) example_zooming) = 3 \<and>
   overlay_display (step (ZoomFrame 10600) example_zooming) = DisplayNone"
proof -
  have c: "consistent example_zooming" by (rule example_consistent)
  have z: "zoomTween example_zooming = Some example_closure"
    by (simp add: example_zooming_eq)
  have l: "userData_label (zc_model example_closure) = Some (createLabel ''Mes Projets'' 7) \<and>
     sectionContent example_zooming ''Mes Projets'' = Some ''Project Ecology Simulation'' \<and>
     ''Project Ecology Simulation'' \<noteq> []"
    by (simp add: example_closure_def example_paper_def example_states example_table_def)
  have p1: "min ((11200 - zc_startTime example_closure) / 1200) 1 = (1::real)"
    and p2: "min ((10600 - zc_startTime example_closure) / 1200) 1 < (1::real)"
    by (simp_all add: example_closure_def)
  have old: "controls_minDistance example_zooming = 3"
    "overlay_display example_zooming = DisplayNone"
    "zc_zoomDistance example_closure = 1.2"
    by (simp_all add: example_states example_closure_def)
  from focus_in_completion [OF c z, of 11200] p1 l
  have a: "phase (step (ZoomFrame 11200) example_zooming) = Focused \<and>
   controls_minDistance (step (ZoomFrame 11200) example_zooming) =
     0.5 * zc_zoomDistance example_closure \<and>
   controls_maxDistance (step (ZoomFrame 11200) example_zooming) =
     2 * zc_zoomDistance example_closure \<and>
   overlay_display (step (ZoomFrame 11200) example_zooming) = DisplayBlock \<and>
   overlay_innerHTML (step (ZoomFrame 11200) example_zooming) =
     Some (''Mes Projets'', ''Project Ecology Simulation'')"
    by blast
  from focus_in_completion [OF c z, of 10600] p2
  have b: "phase (step (ZoomFrame 10600) example_zooming) = FocusTweenIn \<and>
   controls_minDistance (step (ZoomFrame 10600) example_zooming) =
     controls_minDistance example_zooming \<and>
   overlay_display (step (ZoomFrame 10600) example_zooming) = overlay_display example_zooming"
    by blast
  show ?thesis using c z p1 p2 a b by (simp add: old del: step.simps)
qed



text \<open>
  C7. A frame plays the hover sound at most once, and it plays it exactly when it
  hovers an item other than the remembered one. For two successive frames of the loop,
  with any other events between them: if the second plays the sound, it hovers an item
  and the first did not hover that item; if both hover the same item, or both none, the
  second does not play it.
\<close>

theorem hover_sound:
  "(hoverSound_plays (step (AnimateFrame f) s) = hoverSound_plays s \<or>
    hoverSound_plays (step (AnimateFrame f) s) = hoverSound_plays s + 1) \<and>
   (hoverSound_plays (step (AnimateFrame f) s) \<noteq> hoverSound_plays s \<longleftrightarrow>
      hovered f \<noteq> None \<and> hovered f \<noteq> lastHoveredModel s) \<and>
   (list_all (\<lambda>e. \<not> animate_frame e) evs \<longrightarrow>
      (hoverSound_plays (step (AnimateFrame g) (run evs (step (AnimateFrame f) s)))
         \<noteq> hoverSound_plays (run evs (step (AnimateFrame f) s))
       \<longrightarrow> hovered g \<noteq> None \<and> hovered g \<noteq> hovered f) \<and>
      (hovered g = hovered f \<longrightarrow>
         hoverSound_plays (step (AnimateFrame g) (run evs (step (AnimateFrame f) s)))
           = hoverSound_plays (run evs (step (AnimateFrame f) s))))"
proof (intro conjI impI)
  show "hoverSound_plays (step (AnimateFrame f) s) = hoverSound_plays s \<or>
    hoverSound_plays (step (AnimateFrame f) s) = hoverSound_plays s + 1"
    by (simp add: animate_sound)
  show "hoverSound_plays (step (AnimateFrame f) s) \<noteq> hoverSound_plays s \<longleftrightarrow>
      hovered f \<noteq> None \<and> hovered f \<noteq> lastHoveredModel s"
    by (simp add: animate_sound)
  assume "list_all (\<lambda>e. \<not> animate_frame e) evs"
  then have l: "lastHoveredModel (run evs (animate f s)) = lastHoveredModel (animate f s)"
    by (simp add: run_sound)
  {
    assume "hoverSound_plays (step (AnimateFrame g) (run evs (step (AnimateFrame f) s)))
         \<noteq> hoverSound_plays (run evs (step (AnimateFrame f) s))"
    then have g: "hovered g \<noteq> None"
      "hovered g \<noteq> lastHoveredModel (animate f s)"
      by (simp_all add: animate_sound(1) l split: if_splits)
    from g(1) show "hovered g \<noteq> None" .
    show "hovered g \<noteq> hovered f"
    proof
      assume eq: "hovered g = hovered f"
      from g(1) obtain q where "hovered g = Some q" by blast
      then have "lastHoveredModel (animate f s) = hovered g"
        using eq by (simp add: animate_lastHovered)
      then show False using g(2) by simp
    qed
  }
  {
    assume eq: "hovered g = hovered f"
    show "hoverSound_plays (step (AnimateFrame g) (run evs (step (AnimateFrame f) s)))
           = hoverSound_plays (run evs (step (AnimateFrame f) s))"
    proof (cases "hovered f")
      case None
      then show ?thesis using eq by (simp add: animate_sound(1))
    next
      case (Some q)
      then have "lastHoveredModel (animate f s) = hovered g"
        using eq by (simp add: animate_lastHovered)
      then show ?thesis by (simp add: animate_sound(1) l)
    qed
  }
qed

text \<open>
  C7 in the concrete scene: a frame that hovers nothing plays nothing, the next frame
  enters the first paper and plays the sound once, and a frame that hovers the paper
  again does not play it.
\<close>

theorem hover_sound_witness:
  "hovered example_frame_away = None \<and> hovered example_frame = Some example_paper \<and>
   list_all (\<lambda>e. \<not> animate_frame e) [MouseMove 400 300 800 600] \<and>
   hoverSound_plays (step (AnimateFrame example_frame_away) example_idle) = 0 \<and>
   hoverSound_plays (step (AnimateFrame example_frame)
      (run [MouseMove 400 300 800 600] (step (AnimateFrame example_frame_away) example_idle))) = 1 \<and>
   hoverSound_plays (step (AnimateFrame example_frame)
      (run [MouseMove 400 300 800 600] (step (AnimateFrame example_frame) example_idle)))
    = hoverSound_plays (run [MouseMove 400 300 800 600] (step (AnimateFrame example_frame) example_idle))"
proof -
  let ?evs = "[MouseMove 400 300 800 600]"
  have l: "list_all (\<lambda>e. \<not> animate_frame e) ?evs" by simp
  have i: "hoverSound_plays example_idle = 0" "lastHoveredModel example_idle = None"
    by (simp_all add: example_states)
  let ?s1 = "step (AnimateFrame example_frame_away) example_idle"
  from hover_sound [where f = example_frame_away and s = example_idle]
  have "hoverSound_plays ?s1 \<noteq> hoverSound_plays example_idle \<longleftrightarrow>
      hovered example_frame_away \<noteq> None \<and> hovered example_frame_away \<noteq> lastHoveredModel example_idle"
    by blast
  then have a: "hoverSound_plays ?s1 = 0"
    by (simp add: hovered_example i del: step.simps)
  have keep: "hoverSound_plays (run ?evs ?s1) = 0" "lastHoveredModel (run ?evs ?s1) = None"
    using a by (simp_all add: run_def onMouseMove_def animate_sound hovered_example
        example_frame_away_def example_frame_def)
  let ?s2 = "step (AnimateFrame example_frame) (run ?evs ?s1)"
  from hover_sound [where f = example_frame and s = "run ?evs ?s1"]
  have "(hoverSound_plays ?s2 = hoverSound_plays (run ?evs ?s1) \<or>
         hoverSound_plays ?s2 = hoverSound_plays (run ?evs ?s1) + 1) \<and>
        (hoverSound_plays ?s2 \<noteq> hoverSound_plays (run ?evs ?s1) \<longleftrightarrow>
          hovered example_frame \<noteq> None \<and> hovered example_frame \<noteq> lastHoveredModel (run ?evs ?s1))"
    by blast
  then have b: "hoverSound_plays ?s2 = 1"
    by (auto simp add: hovered_example keep simp del: step.simps)
  from hover_sound [where f = example_frame and g = example_frame and s = example_idle
      and evs = ?evs] l
  have c: "hoverSound_plays (step (AnimateFrame example_frame)
      (run ?evs (step (AnimateFrame example_frame) example_idle)))
    = hoverSound_plays (run ?evs (step (AnimateFrame example_frame) example_idle))"
    by blast
  show ?thesis using l a b c hovered_example by (simp del: step.simps)
qed

text \<open>
  C8. In \<open>Idle\<close>, a frame lowers the orbit angle by \<^verbatim>\<open>cameraOrbitSpeed * 0.005\<close>, which is
  0.0001 whatever the frame's time is, puts the camera at
  (cos(angle) \<times> 4, 0.8 + sin(t \<times> 0.3) \<times> 0.2, sin(angle) \<times> 4 + 6), with \<open>t\<close> the frame's
  time in seconds, and makes it look at (0, 0.7, 6). In every other state of the machine
  a frame leaves the orbit angle as it is.
\<close>

theorem idle_orbit:
  assumes "consistent s"
  shows "(phase s = Idle \<longrightarrow>
           cameraOrbitAngle (step (AnimateFrame f) s) =
             cameraOrbitAngle s - cameraOrbitSpeed * 0.005 \<and>
           camera_position (step (AnimateFrame f) s) =
             Vector3 (cos (cameraOrbitAngle (step (AnimateFrame f) s)) * 4)
                     (0.8 + sin (frame_now f * 0.001 * 0.3) * 0.2)
                     (sin (cameraOrbitAngle (step (AnimateFrame f) s)) * 4 + 6) \<and>
           camera_lookAt (step (AnimateFrame f) s) = Some (Vector3 0 0.7 6)) \<and>
         (phase s \<noteq> Idle \<longrightarrow>
           cameraOrbitAngle (step (AnimateFrame f) s) = cameraOrbitAngle s) \<and>
         cameraOrbitSpeed * 0.005 = 0.0001"
proof (intro conjI impI)
  {
    assume "phase s = Idle"
    then have i: "initialAnimationComplete s" "\<not> isZooming s" "selectedModel s = None"
      using assms by (auto simp add: phase_Idle_iff consistent_def)
    show "cameraOrbitAngle (step (AnimateFrame f) s) =
             cameraOrbitAngle s - cameraOrbitSpeed * 0.005"
      using i by (simp add: animate_camera animate_orbit_def Let_def)
    show "camera_position (step (AnimateFrame f) s) =
             Vector3 (cos (cameraOrbitAngle (step (AnimateFrame f) s)) * 4)
                     (0.8 + sin (frame_now f * 0.001 * 0.3) * 0.2)
                     (sin (cameraOrbitAngle (step (AnimateFrame f) s)) * 4 + 6)"
      using i by (simp add: animate_camera animate_orbit_def Let_def cameraOrbitRadius_def
          cameraOrbitHeight_def)
    show "camera_lookAt (step (AnimateFrame f) s) = Some (Vector3 0 0.7 6)"
      using i by (simp add: animate_camera animate_orbit_def Let_def centerPoint_def)
  }
  {
    assume "phase s \<noteq> Idle"
    then have "\<not> initialAnimationComplete s \<or> isZooming s"
      using assms by (simp add: phase_Idle_iff)
    then show "cameraOrbitAngle (step (AnimateFrame f) s) = cameraOrbitAngle s"
      by (auto simp add: animate_camera animate_orbit_def Let_def)
  }
  show "cameraOrbitSpeed * 0.005 = 0.0001"
    by (simp add: cameraOrbitSpeed_def)
qed

text \<open>
  C8 in the concrete scene: a frame at 20000 ms in the idle state, and in the focus.
\<close>

theorem idle_orbit_witness:
  "consistent example_idle \<and> phase example_idle = Idle \<and>
   cameraOrbitAngle (step (AnimateFrame example_frame) example_idle) = pi / 2 - 0.0001 \<and>
   camera_position (step (AnimateFrame example_frame) example_idle) =
     Vector3 (cos (pi / 2 - 0.0001) * 4) (0.8 + sin 6 * 0.2) (sin (pi / 2 - 0.0001) * 4 + 6) \<and>
   camera_lookAt (step (AnimateFrame example_frame) example_idle) = Some (Vector3 0 0.7 6) \<and>
   consistent example_focused \<and> phase example_focused \<noteq> Idle \<and>
   cameraOrbitAngle (step (AnimateFrame example_frame) example_focused) = pi / 2"
proof -
  have a0: "cameraOrbitAngle example_idle = pi / 2" "cameraOrbitAngle example_focused = pi / 2"
    "frame_now example_frame = 20000"
    by (simp_all add: example_states example_frame_def)
  from idle_orbit [OF example_consistent(2), of example_frame] example_phase(2)
  have a: "cameraOrbitAngle (step (AnimateFrame example_frame) example_idle) =
     cameraOrbitAngle example_idle - cameraOrbitSpeed * 0.005"
    and b: "camera_position (step (AnimateFrame example_frame) example_idle) =
     Vector3 (cos (cameraOrbitAngle (step (AnimateFrame example_frame) example_idle)) * 4)
             (0.8 + sin (frame_now example_frame * 0.001 * 0.3) * 0.2)
             (sin (cameraOrbitAngle (step (AnimateFrame example_frame) example_idle)) * 4 + 6)"
    and c: "camera_lookAt (step (AnimateFrame example_frame) example_idle) =
     Some (Vector3 0 0.7 6)"
    and e: "cameraOrbitSpeed * 0.005 = 0.0001"
    by blast+
  have ne: "phase example_focused \<noteq> Idle" by (simp add: example_phase)
  from idle_orbit [OF example_consistent(4), of example_frame] ne
  have d: "cameraOrbitAngle (step (AnimateFrame example_frame) example_focused) =
     cameraOrbitAngle example_focused"
    by blast
  have a': "cameraOrbitAngle (step (AnimateFrame example_frame) example_idle) = pi / 2 - 0.0001"
    unfolding a e by (simp add: a0)
  have b': "camera_position (step (AnimateFrame example_frame) example_idle) =
     Vector3 (cos (pi / 2 - 0.0001) * 4) (0.8 + sin 6 * 0.2) (sin (pi / 2 - 0.0001) * 4 + 6)"
    unfolding b a' by (simp add: a0)
  show ?thesis
    using a' b' c d ne example_consistent(2,4) example_phase(2)
    by (simp add: a0 del: step.simps)
qed



text \<open>
  C10. The flag \<^verbatim>\<open>isZooming\<close> is set by \<^verbatim>\<open>zoomToModel\<close>; no frame of the focus-in
  tween changes it, its last frame included, so it stays set through \<open>Focused\<close>; it is
  set in each of \<open>FocusTweenIn\<close>, \<open>Focused\<close> and \<open>FocusTweenOut\<close>, where it makes
  \<^verbatim>\<open>onClick\<close> return at once; the only event that clears it is the frame of the reset
  tween at which 1500 ms have passed, and that frame does clear it.
\<close>

theorem isZooming_held:
  "isZooming (zoomToModel m sz t0 s0) \<and>
   isZooming (animateCamera c now s) = isZooming s \<and>
   (isZooming s \<longrightarrow> onClick e s = s) \<and>
   (consistent s \<and> phase s \<in> {FocusTweenIn, Focused, FocusTweenOut} \<longrightarrow> isZooming s) \<and>
   (isZooming s \<and> \<not> isZooming (step ev s) \<longrightarrow>
      (\<exists>now rc. ev = ResetFrame now \<and> resetTween s = Some rc \<and> 1500 \<le> now - rc_startTime rc)) \<and>
   (isZooming s \<and> resetTween s = Some rc \<and> 1500 \<le> now - rc_startTime rc \<longrightarrow>
      \<not> isZooming (step (ResetFrame now) s))"
proof (intro conjI impI)
  assume a: "isZooming s \<and> \<not> isZooming (step ev s)"
  show "\<exists>now rc. ev = ResetFrame now \<and> resetTween s = Some rc \<and> 1500 \<le> now - rc_startTime rc"
  proof (cases ev)
    case (Click x) with a show ?thesis by (auto simp add: isZooming_onClick)
  next
    case (CloseClick x) with a show ?thesis
      by (auto simp add: isZooming_onClick isZooming_resetView split: if_splits)
  next
    case (MouseMove a b c d) with a show ?thesis by (auto simp add: onMouseMove_def)
  next
    case (IntroFrame t) with a show ?thesis by (auto split: if_splits)
  next
    case (ZoomFrame t) with a show ?thesis by (auto split: option.splits)
  next
    case (ResetFrame t) with a show ?thesis
      by (auto simp add: isZooming_animateReset split: option.splits)
  next
    case (AnimateFrame f) with a show ?thesis by auto
  next
    case (PaperLoaded a b c d) with a show ?thesis
      by (auto simp add: createPaper_loaded_def Let_def)
  qed
next
  assume "consistent s \<and> phase s \<in> {FocusTweenIn, Focused, FocusTweenOut}"
  then show "isZooming s" using phase_in_flight by blast
qed (simp_all add: onClick_ignored isZooming_animateReset)

text \<open>
  In the concrete scene, at the state in which the reset tween runs: the flag is set,
  the click is ignored, and the reset frame at 13000 ms (1500 ms after the close)
  clears the flag. The last frame of the focus-in tween has left it set.
\<close>

theorem isZooming_held_witness:
  "isZooming example_resetting \<and> consistent example_resetting \<and>
   phase example_resetting = FocusTweenOut \<and>
   isZooming (animateCamera example_closure 13000 example_resetting) \<and>
   onClick example_click example_resetting = example_resetting \<and>
   resetTween example_resetting =
     Some \<lparr> rc_startPosition = Vector3 1 0.2 7.2, rc_startTarget = Vector3 1 0 6,
            rc_startTime = 11500 \<rparr> \<and>
   \<not> isZooming (step (ResetFrame 13000) example_resetting)"
  using isZooming_held [where m = example_paper and sz = "Vector3 0.4 0.6 0.1"
      and ?t0.0 = 10000 and ?s0.0 = example_idle and c = example_closure and now = 13000
      and s = example_resetting and e = example_click and ev = "ResetFrame 13000"
      and rc = "\<lparr> rc_startPosition = Vector3 1 0.2 7.2, rc_startTarget = Vector3 1 0 6,
                   rc_startTime = 11500 \<rparr>"]
  by (simp add: example_consistent example_phase)
     (simp add: example_states)

end
